theory Spec2Isabelle
  imports Complex_Main
begin

section \<open>Arithmetic of the target\<close>

text \<open>
  The library computes in C \<^verbatim>\<open>float\<close>. The embedding is polymorphic in the number
  type \<open>'a\<close> and asks only for the operations the source uses
  (\<open>0\<close>, \<open>1\<close>, \<open>+\<close>, \<open>-\<close>, \<open>*\<close>, \<open>/\<close>, \<open><\<close>), through the syntactic type classes
  \<open>zero\<close>, \<open>one\<close>, \<open>plus\<close>, \<open>minus\<close>, \<open>times\<close>, \<open>inverse\<close> and \<open>ord\<close>. These classes
  carry no axioms, so a theorem stated for every such \<open>'a\<close> uses no law of arithmetic
  (no associativity, no \<open>x - x = 0\<close>, no order property) and holds for rounded binary32
  arithmetic with infinities and NaN as well as for the reals. Equality \<open>=\<close> on \<open>'a\<close>
  is identity of values. Numeric examples are evaluated at type \<open>real\<close>, on inputs
  chosen so that every value the library's own arithmetic produces is exactly
  representable in binary32 (the values of \<^verbatim>\<open>atan2f\<close> and \<^verbatim>\<open>hypotf\<close> aside).

  The literal \<^verbatim>\<open>0.5f\<close> is \<open>half\<close>, and \<^verbatim>\<open>1.0f\<close> is \<open>1\<close>.
\<close>

definition half :: "'a::{one,plus,inverse}" where
  "half = 1 / (1 + 1)"

section \<open>fp\_pid.h: controller records\<close>

text \<open>
  A function-pointer field holds the name of one of the library's functions of the
  pointer's C type; a call through the pointer dispatches on that name.
\<close>

datatype tP_fn = Fn_tP_calc | Fn_tP_rst

record 'a tP =
  fIn :: 'a
  fUpOutLim :: 'a
  fLowOutLim :: 'a
  fKp :: 'a
  fOut :: 'a
  m_calc :: tP_fn
  m_rst :: tP_fn

datatype tPI_fn = Fn_tPI_calc | Fn_tPI_rst

record 'a tPI =
  fDtSec :: 'a
  fIn :: 'a
  fKp :: 'a
  fKi :: 'a
  fUpOutLim :: 'a
  fLowOutLim :: 'a
  fPout :: 'a
  fIout :: 'a
  fIprevIn :: 'a
  fIprevOut :: 'a
  fOut :: 'a
  m_calc :: tPI_fn
  m_rst :: tPI_fn

datatype tPID_fn = Fn_tPID_calc | Fn_tPID_rst

record 'a tPID =
  fDtSec :: 'a
  fIn :: 'a
  fKp :: 'a
  fKi :: 'a
  fKd :: 'a
  fUpOutLim :: 'a
  fLowOutLim :: 'a
  fPout :: 'a
  fIout :: 'a
  fDout :: 'a
  fIprevIn :: 'a
  fIprevOut :: 'a
  fDprevIn :: 'a
  fDprevOut :: 'a
  fOut :: 'a
  m_calc :: tPID_fn
  m_rst :: tPID_fn

definition PI_DEFAULTS :: "'a::{zero,one} tPI" where
  "PI_DEFAULTS =
     \<lparr> tPI.fDtSec = 1, tPI.fIn = 0, tPI.fKp = 0, tPI.fKi = 0,
       tPI.fUpOutLim = 0, tPI.fLowOutLim = 0,
       tPI.fPout = 0, tPI.fIout = 0, tPI.fIprevIn = 0, tPI.fIprevOut = 0,
       tPI.fOut = 0, tPI.m_calc = Fn_tPI_calc, tPI.m_rst = Fn_tPI_rst \<rparr>"

section \<open>fp\_pid.c: controller functions\<close>

definition tP_rst :: "'a::zero tP \<Rightarrow> 'a tP" where
  "tP_rst ptP =
     (let ptP = ptP\<lparr>tP.fIn := 0\<rparr>;
          ptP = ptP\<lparr>tP.fOut := 0\<rparr>
      in ptP)"

definition tPI_calc :: "'a::{one,plus,times,inverse,ord} tPI \<Rightarrow> 'a tPI" where
  "tPI_calc ptPI =
     (let ptPI = ptPI\<lparr>tPI.fPout := tPI.fIn ptPI * tPI.fKp ptPI\<rparr>;
          ptPI = ptPI\<lparr>tPI.fIout := tPI.fIprevOut ptPI + half * tPI.fDtSec ptPI *
                    (tPI.fPout ptPI * tPI.fKi ptPI + tPI.fIprevIn ptPI)\<rparr>;
          ptPI = ptPI\<lparr>tPI.fIprevIn := tPI.fPout ptPI\<rparr>;
          ptPI = ptPI\<lparr>tPI.fIprevOut := tPI.fIout ptPI\<rparr>;
          fPreOut = tPI.fPout ptPI + tPI.fIout ptPI;
          fPreOut = (if fPreOut > tPI.fUpOutLim ptPI then tPI.fUpOutLim ptPI else fPreOut);
          fPreOut = (if fPreOut < tPI.fLowOutLim ptPI then tPI.fLowOutLim ptPI else fPreOut)
      in ptPI\<lparr>tPI.fOut := fPreOut\<rparr>)"

definition tPI_rst :: "'a::zero tPI \<Rightarrow> 'a tPI" where
  "tPI_rst ptPI =
     (let ptPI = ptPI\<lparr>tPI.fIn := 0\<rparr>;
          ptPI = ptPI\<lparr>tPI.fIout := 0\<rparr>;
          ptPI = ptPI\<lparr>tPI.fIprevIn := 0\<rparr>;
          ptPI = ptPI\<lparr>tPI.fIprevOut := 0\<rparr>;
          ptPI = ptPI\<lparr>tPI.fOut := 0\<rparr>;
          ptPI = ptPI\<lparr>tPI.fPout := 0\<rparr>
      in ptPI)"

definition tPID_rst :: "'a::zero tPID \<Rightarrow> 'a tPID" where
  "tPID_rst ptPID =
     (let ptPID = ptPID\<lparr>tPID.fDout := 0\<rparr>;
          ptPID = ptPID\<lparr>tPID.fDprevIn := 0\<rparr>;
          ptPID = ptPID\<lparr>tPID.fDprevOut := 0\<rparr>;
          ptPID = ptPID\<lparr>tPID.fIn := 0\<rparr>;
          ptPID = ptPID\<lparr>tPID.fIout := 0\<rparr>;
          ptPID = ptPID\<lparr>tPID.fIprevIn := 0\<rparr>;
          ptPID = ptPID\<lparr>tPID.fIprevOut := 0\<rparr>;
          ptPID = ptPID\<lparr>tPID.fOut := 0\<rparr>;
          ptPID = ptPID\<lparr>tPID.fPout := 0\<rparr>
      in ptPID)"

text \<open>A call \<^verbatim>\<open>s.m_calc(&s)\<close> through a PI record's function pointer.\<close>

fun call_tPI :: "tPI_fn \<Rightarrow> 'a::{zero,one,plus,times,inverse,ord} tPI \<Rightarrow> 'a tPI" where
  "call_tPI Fn_tPI_calc ptPI = tPI_calc ptPI"
| "call_tPI Fn_tPI_rst ptPI = tPI_rst ptPI"

section \<open>im\_estimators.h: parameter and observer records\<close>

datatype tIMparams_fn = Fn_tIMparams_init

record 'a tIMparams =
  fDt :: 'a
  fNpP :: 'a
  fRs :: 'a
  fRr :: 'a
  fLs :: 'a
  fLr :: 'a
  fLm :: 'a
  f1divTr :: 'a
  f1divKr :: 'a
  fSigLs :: 'a
  m_init :: tIMparams_fn

datatype tIMstatObs_fn = Fn_tIMstatObs_calc

record 'a tIMstatObs =
  fIsAl :: 'a
  fIsBe :: 'a
  fUsAl :: 'a
  fUsBe :: 'a
  fPrevIsAl :: 'a
  fPrevIsBe :: 'a
  fEsAl :: 'a
  fEsBe :: 'a
  m_calc :: tIMstatObs_fn

datatype tIMrotObs_fn = Fn_tIMrotObs_calc

record 'a tIMrotObs =
  fIsAl :: 'a
  fIsBe :: 'a
  fWrE :: 'a
  fPrevErAl :: 'a
  fPrevErBe :: 'a
  fPrevFrAl :: 'a
  fPrevFrBe :: 'a
  fFrAl :: 'a
  fFrBe :: 'a
  fErAl :: 'a
  fErBe :: 'a
  m_calc :: tIMrotObs_fn

datatype tIMspeedObs_fn = Fn_tIMspeedObs_calc

record 'a tIMspeedObs =
  fUsAl :: 'a
  fUsBe :: 'a
  fIsAl :: 'a
  fIsBe :: 'a
  sIMstatObs :: "'a tIMstatObs"
  sIMrotObs :: "'a tIMrotObs"
  sPI :: "'a tPI"
  fWrE :: 'a
  fFrAng :: 'a
  fFrMagn :: 'a
  m_calc :: tIMspeedObs_fn

definition IM_STAT_OBS_DEFAULTS :: "'a::zero tIMstatObs" where
  "IM_STAT_OBS_DEFAULTS =
     \<lparr> tIMstatObs.fIsAl = 0, tIMstatObs.fIsBe = 0,
       tIMstatObs.fUsAl = 0, tIMstatObs.fUsBe = 0,
       tIMstatObs.fPrevIsAl = 0, tIMstatObs.fPrevIsBe = 0,
       tIMstatObs.fEsAl = 0, tIMstatObs.fEsBe = 0,
       tIMstatObs.m_calc = Fn_tIMstatObs_calc \<rparr>"

definition IM_ROT_OBS_DEFAULTS :: "'a::zero tIMrotObs" where
  "IM_ROT_OBS_DEFAULTS =
     \<lparr> tIMrotObs.fIsAl = 0, tIMrotObs.fIsBe = 0, tIMrotObs.fWrE = 0,
       tIMrotObs.fPrevErAl = 0, tIMrotObs.fPrevErBe = 0,
       tIMrotObs.fPrevFrAl = 0, tIMrotObs.fPrevFrBe = 0,
       tIMrotObs.fFrAl = 0, tIMrotObs.fFrBe = 0,
       tIMrotObs.fErAl = 0, tIMrotObs.fErBe = 0,
       tIMrotObs.m_calc = Fn_tIMrotObs_calc \<rparr>"

definition IM_SPEED_OBS_DEFAULTS :: "'a::{zero,one} tIMspeedObs" where
  "IM_SPEED_OBS_DEFAULTS =
     \<lparr> tIMspeedObs.fUsAl = 0, tIMspeedObs.fUsBe = 0,
       tIMspeedObs.fIsAl = 0, tIMspeedObs.fIsBe = 0,
       tIMspeedObs.sIMstatObs = IM_STAT_OBS_DEFAULTS,
       tIMspeedObs.sIMrotObs = IM_ROT_OBS_DEFAULTS,
       tIMspeedObs.sPI = PI_DEFAULTS,
       tIMspeedObs.fWrE = 0, tIMspeedObs.fFrAng = 0, tIMspeedObs.fFrMagn = 0,
       tIMspeedObs.m_calc = Fn_tIMspeedObs_calc \<rparr>"

section \<open>im\_estimators.c: parameter initialisation and observers\<close>

definition tIMparams_init :: "'a::{one,minus,times,inverse} tIMparams \<Rightarrow> 'a tIMparams" where
  "tIMparams_init ptIMparams =
     (let ptIMparams = ptIMparams\<lparr>f1divTr := fRr ptIMparams / fLr ptIMparams\<rparr>;
          ptIMparams = ptIMparams\<lparr>f1divKr := fLr ptIMparams / fLm ptIMparams\<rparr>;
          ptIMparams = ptIMparams\<lparr>fSigLs :=
              (1 - fLm ptIMparams * fLm ptIMparams /
                     (fLs ptIMparams * fLr ptIMparams)) * fLs ptIMparams\<rparr>
      in ptIMparams)"

definition tIMstatObs_calc ::
  "'a::{minus,times,inverse} tIMstatObs \<Rightarrow> 'a tIMparams \<Rightarrow> 'a tIMstatObs" where
  "tIMstatObs_calc ptIMstatObs ptIMparams =
     (let fDiffIsAl = (tIMstatObs.fIsAl ptIMstatObs - fPrevIsAl ptIMstatObs) / fDt ptIMparams;
          ptIMstatObs = ptIMstatObs\<lparr>fPrevIsAl := tIMstatObs.fIsAl ptIMstatObs\<rparr>;
          fDiffIsBe = (tIMstatObs.fIsBe ptIMstatObs - fPrevIsBe ptIMstatObs) / fDt ptIMparams;
          ptIMstatObs = ptIMstatObs\<lparr>fPrevIsBe := tIMstatObs.fIsBe ptIMstatObs\<rparr>;
          ptIMstatObs = ptIMstatObs\<lparr>fEsAl :=
              (tIMstatObs.fUsAl ptIMstatObs - fRs ptIMparams * tIMstatObs.fIsAl ptIMstatObs -
                 fSigLs ptIMparams * fDiffIsAl) * f1divKr ptIMparams\<rparr>;
          ptIMstatObs = ptIMstatObs\<lparr>fEsBe :=
              (tIMstatObs.fUsBe ptIMstatObs - fRs ptIMparams * tIMstatObs.fIsBe ptIMstatObs -
                 fSigLs ptIMparams * fDiffIsBe) * f1divKr ptIMparams\<rparr>
      in ptIMstatObs)"

definition tIMrotObs_calc ::
  "'a::{one,plus,minus,times,inverse} tIMrotObs \<Rightarrow> 'a tIMparams \<Rightarrow> 'a tIMrotObs" where
  "tIMrotObs_calc ptIMrotObs ptIMparams =
     (let ptIMrotObs = ptIMrotObs\<lparr>fErAl :=
              (tIMrotObs.fIsAl ptIMrotObs * fLm ptIMparams - fFrAl ptIMrotObs) *
                 f1divTr ptIMparams - tIMrotObs.fWrE ptIMrotObs * fFrBe ptIMrotObs\<rparr>;
          ptIMrotObs = ptIMrotObs\<lparr>fFrAl := fPrevFrAl ptIMrotObs + half * fDt ptIMparams *
              (fErAl ptIMrotObs + fPrevErAl ptIMrotObs)\<rparr>;
          ptIMrotObs = ptIMrotObs\<lparr>fPrevErAl := fErAl ptIMrotObs\<rparr>;
          ptIMrotObs = ptIMrotObs\<lparr>fPrevFrAl := fFrAl ptIMrotObs\<rparr>;
          ptIMrotObs = ptIMrotObs\<lparr>fErBe :=
              (tIMrotObs.fIsBe ptIMrotObs * fLm ptIMparams - fFrBe ptIMrotObs) *
                 f1divTr ptIMparams + tIMrotObs.fWrE ptIMrotObs * fFrAl ptIMrotObs\<rparr>;
          ptIMrotObs = ptIMrotObs\<lparr>fFrBe := fPrevFrBe ptIMrotObs + half * fDt ptIMparams *
              (fErBe ptIMrotObs + fPrevErBe ptIMrotObs)\<rparr>;
          ptIMrotObs = ptIMrotObs\<lparr>fPrevErBe := fErBe ptIMrotObs\<rparr>;
          ptIMrotObs = ptIMrotObs\<lparr>fPrevFrBe := fFrBe ptIMrotObs\<rparr>
      in ptIMrotObs)"

text \<open>Calls through the sub-observers' function pointers.\<close>

fun call_tIMstatObs ::
  "tIMstatObs_fn \<Rightarrow> 'a::{minus,times,inverse} tIMstatObs \<Rightarrow> 'a tIMparams \<Rightarrow> 'a tIMstatObs" where
  "call_tIMstatObs Fn_tIMstatObs_calc ptIMstatObs ptIMparams =
     tIMstatObs_calc ptIMstatObs ptIMparams"

fun call_tIMrotObs ::
  "tIMrotObs_fn \<Rightarrow> 'a::{one,plus,minus,times,inverse} tIMrotObs \<Rightarrow> 'a tIMparams \<Rightarrow> 'a tIMrotObs" where
  "call_tIMrotObs Fn_tIMrotObs_calc ptIMrotObs ptIMparams =
     tIMrotObs_calc ptIMrotObs ptIMparams"

text \<open>
  \<^verbatim>\<open>atan2f\<close> and \<^verbatim>\<open>hypotf\<close> come from the C library (\<^verbatim>\<open>math.h\<close>), not from this
  repository: they are parameters of the speed observer.
\<close>

record 'a math_h =
  atan2f :: "'a \<Rightarrow> 'a \<Rightarrow> 'a"
  hypotf :: "'a \<Rightarrow> 'a \<Rightarrow> 'a"

definition tIMspeedObs_calc ::
  "'a math_h \<Rightarrow> 'a::{zero,one,plus,minus,times,inverse,ord} tIMspeedObs \<Rightarrow> 'a tIMparams
     \<Rightarrow> 'a tIMspeedObs" where
  "tIMspeedObs_calc libm ptIMspeedObs ptIMparams =
     (let ptIMspeedObs = ptIMspeedObs\<lparr>sIMstatObs :=
              (sIMstatObs ptIMspeedObs)\<lparr>tIMstatObs.fUsAl := tIMspeedObs.fUsAl ptIMspeedObs\<rparr>\<rparr>;
          ptIMspeedObs = ptIMspeedObs\<lparr>sIMstatObs :=
              (sIMstatObs ptIMspeedObs)\<lparr>tIMstatObs.fUsBe := tIMspeedObs.fUsBe ptIMspeedObs\<rparr>\<rparr>;
          ptIMspeedObs = ptIMspeedObs\<lparr>sIMstatObs :=
              (sIMstatObs ptIMspeedObs)\<lparr>tIMstatObs.fIsAl := tIMspeedObs.fIsAl ptIMspeedObs\<rparr>\<rparr>;
          ptIMspeedObs = ptIMspeedObs\<lparr>sIMstatObs :=
              (sIMstatObs ptIMspeedObs)\<lparr>tIMstatObs.fIsBe := tIMspeedObs.fIsBe ptIMspeedObs\<rparr>\<rparr>;
          ptIMspeedObs = ptIMspeedObs\<lparr>sIMrotObs :=
              (sIMrotObs ptIMspeedObs)\<lparr>tIMrotObs.fIsAl := tIMspeedObs.fIsAl ptIMspeedObs\<rparr>\<rparr>;
          ptIMspeedObs = ptIMspeedObs\<lparr>sIMrotObs :=
              (sIMrotObs ptIMspeedObs)\<lparr>tIMrotObs.fIsBe := tIMspeedObs.fIsBe ptIMspeedObs\<rparr>\<rparr>;
          ptIMspeedObs = ptIMspeedObs\<lparr>sIMrotObs :=
              (sIMrotObs ptIMspeedObs)\<lparr>tIMrotObs.fWrE := tIMspeedObs.fWrE ptIMspeedObs\<rparr>\<rparr>;
          ptIMspeedObs = ptIMspeedObs\<lparr>sIMstatObs :=
              call_tIMstatObs (tIMstatObs.m_calc (sIMstatObs ptIMspeedObs))
                (sIMstatObs ptIMspeedObs) ptIMparams\<rparr>;
          ptIMspeedObs = ptIMspeedObs\<lparr>sIMrotObs :=
              call_tIMrotObs (tIMrotObs.m_calc (sIMrotObs ptIMspeedObs))
                (sIMrotObs ptIMspeedObs) ptIMparams\<rparr>;
          ptIMspeedObs = ptIMspeedObs\<lparr>sPI := (sPI ptIMspeedObs)\<lparr>tPI.fIn :=
              tIMspeedObs.fIsAl ptIMspeedObs *
                (fEsBe (sIMstatObs ptIMspeedObs) - fErBe (sIMrotObs ptIMspeedObs)) -
              tIMspeedObs.fIsBe ptIMspeedObs *
                (fEsAl (sIMstatObs ptIMspeedObs) - fErAl (sIMrotObs ptIMspeedObs))\<rparr>\<rparr>;
          ptIMspeedObs = ptIMspeedObs\<lparr>sPI :=
              call_tPI (tPI.m_calc (sPI ptIMspeedObs)) (sPI ptIMspeedObs)\<rparr>;
          ptIMspeedObs = ptIMspeedObs\<lparr>tIMspeedObs.fWrE := tPI.fOut (sPI ptIMspeedObs)\<rparr>;
          ptIMspeedObs = ptIMspeedObs\<lparr>fFrAng :=
              atan2f libm (fFrBe (sIMrotObs ptIMspeedObs)) (fFrAl (sIMrotObs ptIMspeedObs))\<rparr>;
          ptIMspeedObs = ptIMspeedObs\<lparr>fFrMagn :=
              hypotf libm (fFrBe (sIMrotObs ptIMspeedObs)) (fFrAl (sIMrotObs ptIMspeedObs))\<rparr>
      in ptIMspeedObs)"

section \<open>The caller's side: feeding samples\<close>

text \<open>
  The library leaves sampling to its caller, who writes the measured stator voltage and
  current into the speed observer's input fields and then calls its compute function,
  once per sampling period and on the same record.
\<close>

record 'a sample =
  UsAl :: 'a
  UsBe :: 'a
  IsAl :: 'a
  IsBe :: 'a

definition feed :: "'a sample \<Rightarrow> 'a tIMspeedObs \<Rightarrow> 'a tIMspeedObs" where
  "feed x s =
     s\<lparr>tIMspeedObs.fUsAl := UsAl x, tIMspeedObs.fUsBe := UsBe x,
       tIMspeedObs.fIsAl := IsAl x, tIMspeedObs.fIsBe := IsBe x\<rparr>"

definition sample_step ::
  "'a math_h \<Rightarrow> 'a::{zero,one,plus,minus,times,inverse,ord} tIMparams \<Rightarrow> 'a tIMspeedObs
     \<Rightarrow> 'a sample \<Rightarrow> 'a tIMspeedObs" where
  "sample_step libm p s x = tIMspeedObs_calc libm (feed x s) p"

text \<open>The record after a sequence of samples, oldest first.\<close>

definition run ::
  "'a math_h \<Rightarrow> 'a::{zero,one,plus,minus,times,inverse,ord} tIMparams \<Rightarrow> 'a tIMspeedObs
     \<Rightarrow> 'a sample list \<Rightarrow> 'a tIMspeedObs" where
  "run libm p s xs = foldl (sample_step libm p) s xs"

text \<open>The outputs (speed estimate, flux angle, flux magnitude) read after each sample.\<close>

definition outputs :: "'a tIMspeedObs \<Rightarrow> 'a \<times> 'a \<times> 'a" where
  "outputs s = (tIMspeedObs.fWrE s, fFrAng s, fFrMagn s)"

fun replay ::
  "'a math_h \<Rightarrow> 'a::{zero,one,plus,minus,times,inverse,ord} tIMparams \<Rightarrow> 'a tIMspeedObs
     \<Rightarrow> 'a sample list \<Rightarrow> ('a \<times> 'a \<times> 'a) list" where
  "replay libm p s [] = []"
| "replay libm p s (x # xs) =
     outputs (sample_step libm p s x) # replay libm p (sample_step libm p s x) xs"

text \<open>
  Two speed-observer records carry the same history when they agree on every field that
  \<open>tIMspeedObs_calc\<close> and the functions it calls read before writing: the speed
  estimate, the stator observer's previous currents, the rotor observer's fluxes and
  previous values, the controller's configuration and integrator history, and the three
  function pointers it calls through. The records may differ in the input fields (the
  samples overwrite them), in the outputs of the previous call that are only written,
  and in the pointers that are not called.
\<close>

definition same_history :: "'a tIMspeedObs \<Rightarrow> 'a tIMspeedObs \<Rightarrow> bool" where
  "same_history s t \<longleftrightarrow>
     tIMspeedObs.fWrE s = tIMspeedObs.fWrE t
   \<and> fPrevIsAl (sIMstatObs s) = fPrevIsAl (sIMstatObs t)
   \<and> fPrevIsBe (sIMstatObs s) = fPrevIsBe (sIMstatObs t)
   \<and> tIMstatObs.m_calc (sIMstatObs s) = tIMstatObs.m_calc (sIMstatObs t)
   \<and> fPrevErAl (sIMrotObs s) = fPrevErAl (sIMrotObs t)
   \<and> fPrevErBe (sIMrotObs s) = fPrevErBe (sIMrotObs t)
   \<and> fPrevFrAl (sIMrotObs s) = fPrevFrAl (sIMrotObs t)
   \<and> fPrevFrBe (sIMrotObs s) = fPrevFrBe (sIMrotObs t)
   \<and> fFrAl (sIMrotObs s) = fFrAl (sIMrotObs t)
   \<and> fFrBe (sIMrotObs s) = fFrBe (sIMrotObs t)
   \<and> tIMrotObs.m_calc (sIMrotObs s) = tIMrotObs.m_calc (sIMrotObs t)
   \<and> tPI.fDtSec (sPI s) = tPI.fDtSec (sPI t)
   \<and> tPI.fKp (sPI s) = tPI.fKp (sPI t)
   \<and> tPI.fKi (sPI s) = tPI.fKi (sPI t)
   \<and> tPI.fUpOutLim (sPI s) = tPI.fUpOutLim (sPI t)
   \<and> tPI.fLowOutLim (sPI s) = tPI.fLowOutLim (sPI t)
   \<and> tPI.fIprevIn (sPI s) = tPI.fIprevIn (sPI t)
   \<and> tPI.fIprevOut (sPI s) = tPI.fIprevOut (sPI t)
   \<and> tPI.m_calc (sPI s) = tPI.m_calc (sPI t)"

text \<open>
  Holding the PI controller's input at \<open>x\<close> for \<open>n\<close> samples: the caller writes
  \<open>fIn\<close> and calls \<open>tPI_calc\<close>, \<open>n\<close> times.
\<close>

primrec tPI_hold ::
  "'a::{one,plus,times,inverse,ord} \<Rightarrow> nat \<Rightarrow> 'a tPI \<Rightarrow> 'a tPI" where
  "tPI_hold x 0 s = s"
| "tPI_hold x (Suc n) s = tPI_calc ((tPI_hold x n s)\<lparr>tPI.fIn := x\<rparr>)"

section \<open>Concrete inputs for the examples\<close>

text \<open>
  The real-valued functions that \<^verbatim>\<open>atan2f\<close> and \<^verbatim>\<open>hypotf\<close> approximate.
\<close>

definition real_math_h :: "real math_h" where
  "real_math_h =
     \<lparr> atan2f = (\<lambda>y x.
         if 0 < x then arctan (y / x)
         else if x < 0 then (if 0 \<le> y then arctan (y / x) + pi else arctan (y / x) - pi)
         else if 0 < y then pi / 2
         else if y < 0 then - (pi / 2)
         else 0),
       hypotf = (\<lambda>y x. sqrt (y * y + x * x)) \<rparr>"

text \<open>
  A parameter record with \<open>\<Delta>t = 1\<close>, \<open>Rs = Rr = 1\<close>, \<open>Ls = 2\<close>, \<open>Lr = Lm = 1\<close>, after
  \<open>tIMparams_init\<close>; and two samples.
\<close>

definition example_params :: "real tIMparams" where
  "example_params =
     tIMparams_init
       \<lparr> fDt = 1, fNpP = 1, fRs = 1, fRr = 1, fLs = 2, fLr = 1, fLm = 1,
         f1divTr = 0, f1divKr = 0, fSigLs = 0, m_init = Fn_tIMparams_init \<rparr>"

definition example_sample :: "real sample" where
  "example_sample = \<lparr> UsAl = 1, UsBe = 0, IsAl = 1, IsBe = 1 \<rparr>"

definition example_samples :: "real sample list" where
  "example_samples =
     [ example_sample, \<lparr> UsAl = 0, UsBe = 1, IsAl = 0, IsBe = 1 \<rparr> ]"

text \<open>
  A default-constructed speed observer whose controller has been configured with
  \<open>Kp = 1\<close>, \<open>Ki = 2\<close> and output limits \<open>\<plusminus>100\<close>.
\<close>

definition example_speedObs :: "real tIMspeedObs" where
  "example_speedObs =
     IM_SPEED_OBS_DEFAULTS\<lparr>sPI :=
       PI_DEFAULTS\<lparr>tPI.fKp := 1, tPI.fKi := 2,
                   tPI.fUpOutLim := 100, tPI.fLowOutLim := - 100\<rparr>\<rparr>"

section \<open>Machine parameters\<close>

text \<open>
  Claim C6. \<open>tIMparams_init\<close> writes \<open>f1divTr = fRr / fLr\<close>, \<open>f1divKr = fLr / fLm\<close> and
  \<open>fSigLs = (1 - fLm * fLm / (fLs * fLr)) * fLs\<close>, computed from the constants the
  record holds on entry, and changes nothing else: the seven physical constants and the
  function pointer \<open>m_init\<close> keep their values.
\<close>

theorem tIMparams_init_writes_only_derived:
  fixes p :: "'a::{one,minus,times,inverse} tIMparams"
  shows "f1divTr (tIMparams_init p) = fRr p / fLr p
       \<and> f1divKr (tIMparams_init p) = fLr p / fLm p
       \<and> fSigLs (tIMparams_init p) = (1 - fLm p * fLm p / (fLs p * fLr p)) * fLs p
       \<and> fDt (tIMparams_init p) = fDt p
       \<and> fNpP (tIMparams_init p) = fNpP p
       \<and> fRs (tIMparams_init p) = fRs p
       \<and> fRr (tIMparams_init p) = fRr p
       \<and> fLs (tIMparams_init p) = fLs p
       \<and> fLr (tIMparams_init p) = fLr p
       \<and> fLm (tIMparams_init p) = fLm p
       \<and> m_init (tIMparams_init p) = m_init p"
  by (simp add: tIMparams_init_def)

text \<open>
  Claim C9. \<open>tIMparams_init\<close> is idempotent: a second call on the record the first call
  returned, with the physical constants untouched in between, returns that same record,
  so the three derived coefficients are written with identical values.
\<close>

theorem tIMparams_init_idempotent:
  fixes p :: "'a::{one,minus,times,inverse} tIMparams"
  shows "tIMparams_init (tIMparams_init p) = tIMparams_init p"
  by (simp add: tIMparams_init_def)

lemma example_params_eq:
  "example_params =
     \<lparr> fDt = 1, fNpP = 1, fRs = 1, fRr = 1, fLs = 2, fLr = 1, fLm = 1,
       f1divTr = 1, f1divKr = 1, fSigLs = 1, m_init = Fn_tIMparams_init \<rparr>"
  by (simp add: example_params_def tIMparams_init_def)

section \<open>Controllers\<close>

text \<open>
  Claim C7. For the P, PI and PID controllers, reset sets the input, the output and
  every internal link and history field to zero, and leaves the gains (\<open>fKp\<close>, and
  \<open>fKi\<close>, \<open>fKd\<close> where the record has them), both output limits and the sampling
  interval \<open>fDtSec\<close> as they were.
\<close>

theorem rst_zeroes_state_keeps_config:
  fixes p :: "'a::zero tP" and q :: "'a tPI" and r :: "'a tPID"
  shows "tP.fIn (tP_rst p) = 0 \<and> tP.fOut (tP_rst p) = 0
       \<and> tP.fKp (tP_rst p) = tP.fKp p
       \<and> tP.fUpOutLim (tP_rst p) = tP.fUpOutLim p
       \<and> tP.fLowOutLim (tP_rst p) = tP.fLowOutLim p
       \<and> tPI.fIn (tPI_rst q) = 0 \<and> tPI.fOut (tPI_rst q) = 0
       \<and> tPI.fPout (tPI_rst q) = 0 \<and> tPI.fIout (tPI_rst q) = 0
       \<and> tPI.fIprevIn (tPI_rst q) = 0 \<and> tPI.fIprevOut (tPI_rst q) = 0
       \<and> tPI.fKp (tPI_rst q) = tPI.fKp q \<and> tPI.fKi (tPI_rst q) = tPI.fKi q
       \<and> tPI.fUpOutLim (tPI_rst q) = tPI.fUpOutLim q
       \<and> tPI.fLowOutLim (tPI_rst q) = tPI.fLowOutLim q
       \<and> tPI.fDtSec (tPI_rst q) = tPI.fDtSec q
       \<and> tPID.fIn (tPID_rst r) = 0 \<and> tPID.fOut (tPID_rst r) = 0
       \<and> tPID.fPout (tPID_rst r) = 0 \<and> tPID.fIout (tPID_rst r) = 0
       \<and> tPID.fDout (tPID_rst r) = 0
       \<and> tPID.fIprevIn (tPID_rst r) = 0 \<and> tPID.fIprevOut (tPID_rst r) = 0
       \<and> tPID.fDprevIn (tPID_rst r) = 0 \<and> tPID.fDprevOut (tPID_rst r) = 0
       \<and> tPID.fKp (tPID_rst r) = tPID.fKp r \<and> tPID.fKi (tPID_rst r) = tPID.fKi r
       \<and> tPID.fKd (tPID_rst r) = tPID.fKd r
       \<and> tPID.fUpOutLim (tPID_rst r) = tPID.fUpOutLim r
       \<and> tPID.fLowOutLim (tPID_rst r) = tPID.fLowOutLim r
       \<and> tPID.fDtSec (tPID_rst r) = tPID.fDtSec r"
  by (simp add: tP_rst_def tPI_rst_def tPID_rst_def)

subsection \<open>What one PI step computes\<close>

lemma tPI_calc_fIn: "tPI.fIn (tPI_calc q) = tPI.fIn q"
  by (simp add: tPI_calc_def Let_def)

lemma tPI_calc_fOut:
  "tPI.fOut (tPI_calc q) =
     (let fPreOut = tPI.fPout (tPI_calc q) + tPI.fIout (tPI_calc q);
          fPreOut = (if fPreOut > tPI.fUpOutLim q then tPI.fUpOutLim q else fPreOut)
      in if fPreOut < tPI.fLowOutLim q then tPI.fLowOutLim q else fPreOut)"
  by (simp add: tPI_calc_def Let_def)

lemma tPI_calc_config:
  "tPI.fKp (tPI_calc q) = tPI.fKp q \<and> tPI.fKi (tPI_calc q) = tPI.fKi q
   \<and> tPI.fDtSec (tPI_calc q) = tPI.fDtSec q"
  by (simp add: tPI_calc_def Let_def)

text \<open>
  The integral link adds \<open>\<Delta>t/2\<close> times the sum of its present input \<open>fPout * fKi\<close> and
  the stored \<open>fIprevIn\<close>; what the step stores in \<open>fIprevIn\<close> for the next call is
  \<open>fPout\<close>, without the factor \<open>fKi\<close>.
\<close>

lemma tPI_calc_links:
  "tPI.fPout (tPI_calc q) = tPI.fIn q * tPI.fKp q
   \<and> tPI.fIout (tPI_calc q) =
       tPI.fIprevOut q +
       half * tPI.fDtSec q * (tPI.fIn q * tPI.fKp q * tPI.fKi q + tPI.fIprevIn q)
   \<and> tPI.fIprevIn (tPI_calc q) = tPI.fIn q * tPI.fKp q
   \<and> tPI.fIprevOut (tPI_calc q) = tPI.fIout (tPI_calc q)"
  by (simp add: tPI_calc_def Let_def)

subsection \<open>A constant input held from the zero-reset state\<close>

lemma tPI_hold_config:
  "tPI.fKp (tPI_hold x n s) = tPI.fKp s \<and> tPI.fKi (tPI_hold x n s) = tPI.fKi s
   \<and> tPI.fDtSec (tPI_hold x n s) = tPI.fDtSec s"
  by (induction n) (simp_all add: tPI_calc_config)

text \<open>
  Over the reals, and from a state whose integrator history is zero, the links after
  \<open>n + 1\<close> samples of the constant input \<open>x\<close> are
  \<open>fPout = x * Kp\<close> and \<open>fIout = \<Delta>t/2 * (x * Kp) * ((n + 1) * Ki + n)\<close>.
\<close>

lemma tPI_hold_closed_form:
  fixes s :: "real tPI"
  assumes "tPI.fIprevIn s = 0" and "tPI.fIprevOut s = 0"
  shows "tPI.fPout (tPI_hold x (Suc n) s) = x * tPI.fKp s
       \<and> tPI.fIprevIn (tPI_hold x (Suc n) s) = x * tPI.fKp s
       \<and> tPI.fIprevOut (tPI_hold x (Suc n) s) = tPI.fIout (tPI_hold x (Suc n) s)
       \<and> tPI.fIout (tPI_hold x (Suc n) s) =
           tPI.fDtSec s / 2 * (x * tPI.fKp s) * (real (Suc n) * tPI.fKi s + real n)"
proof (induction n)
  case 0
  show ?case using assms by (simp add: tPI_calc_links half_def)
next
  case (Suc n)
  define q where "q = (tPI_hold x (Suc n) s)\<lparr>tPI.fIn := x\<rparr>"
  have q: "tPI.fIn q = x" "tPI.fKp q = tPI.fKp s" "tPI.fKi q = tPI.fKi s"
    "tPI.fDtSec q = tPI.fDtSec s"
    "tPI.fIprevIn q = x * tPI.fKp s"
    "tPI.fIprevOut q =
       tPI.fDtSec s / 2 * (x * tPI.fKp s) * (real (Suc n) * tPI.fKi s + real n)"
    using Suc.IH tPI_hold_config [of x "Suc n" s] by (simp_all add: q_def)
  have step: "tPI_hold x (Suc (Suc n)) s = tPI_calc q"
    by (simp add: q_def)
  have "tPI.fPout (tPI_calc q) = x * tPI.fKp s"
    and "tPI.fIprevIn (tPI_calc q) = x * tPI.fKp s"
    and "tPI.fIprevOut (tPI_calc q) = tPI.fIout (tPI_calc q)"
    and "tPI.fIout (tPI_calc q) =
           tPI.fDtSec s / 2 * (x * tPI.fKp s) * (real (Suc n) * tPI.fKi s + real n) +
           1 / 2 * tPI.fDtSec s * (x * tPI.fKp s * tPI.fKi s + x * tPI.fKp s)"
    using tPI_calc_links [of q] by (simp_all only: q half_def) simp_all
  then show ?case
    unfolding step by (simp add: field_simps)
qed

text \<open>
  So the unclamped output \<open>fPout + fIout\<close> after \<open>n + 1\<close> samples is
  \<open>Kp * x + \<Delta>t/2 * (Kp * x) * ((n + 1) * Ki + n)\<close>. Trapezoidal integration of the
  integral link's input \<open>Ki * Kp * x\<close> would give
  \<open>Kp * x + Ki * Kp * x * \<Delta>t * ((n + 1) - 1/2)\<close>; the two differ by
  \<open>\<Delta>t/2 * (Kp * x) * n * (1 - Ki)\<close>, which is zero only for the first sample, for
  \<open>Ki = 1\<close>, or for a zero proportional part.
\<close>

lemma tPI_hold_unclamped:
  fixes s :: "real tPI"
  assumes "tPI.fIprevIn s = 0" and "tPI.fIprevOut s = 0"
  shows "tPI.fPout (tPI_hold x (Suc n) s) + tPI.fIout (tPI_hold x (Suc n) s) =
           tPI.fKp s * x +
           tPI.fDtSec s / 2 * (tPI.fKp s * x) * (real (Suc n) * tPI.fKi s + real n)"
  using tPI_hold_closed_form [OF assms, of x n] by (simp add: mult.commute)

text \<open>
  Claim C3, evaluated. The claim gives the unclamped PI output after \<open>n\<close> samples of a
  constant input \<open>x\<close> from the zero-reset state as \<open>Kp * x + Ki * Kp * x * \<Delta>t * (n - 1/2)\<close>.
  With \<open>Kp = 1\<close>, \<open>Ki = 2\<close>, \<open>\<Delta>t = 1\<close>, limits \<open>\<plusminus>100\<close>, \<open>x = 1\<close> and \<open>n = 2\<close> the code
  yields \<open>fPout + fIout = 7/2\<close> (and \<open>fOut = 7/2\<close>, inside the limits), while the
  closed form is \<open>4\<close>.
\<close>

theorem tPI_hold_two_samples_off_closed_form:
  "let s0 = tPI_rst (PI_DEFAULTS\<lparr>tPI.fKp := 1, tPI.fKi := 2,
                tPI.fUpOutLim := 100, tPI.fLowOutLim := - 100\<rparr>) :: real tPI;
       s2 = tPI_hold 1 (Suc (Suc 0)) s0
   in tPI.fPout s2 + tPI.fIout s2 = 7 / 2
    \<and> tPI.fOut s2 = 7 / 2
    \<and> tPI.fKp s0 * 1 + tPI.fKi s0 * tPI.fKp s0 * 1 * tPI.fDtSec s0 * (2 - 1 / 2) = 4
    \<and> tPI.fPout s2 + tPI.fIout s2 \<noteq>
        tPI.fKp s0 * 1 + tPI.fKi s0 * tPI.fKp s0 * 1 * tPI.fDtSec s0 * (2 - 1 / 2)"
  by (simp add: Let_def PI_DEFAULTS_def tPI_rst_def tPI_calc_def half_def)

section \<open>Stator back-EMF observer\<close>

text \<open>
  Claim C5. For each axis, \<open>tIMstatObs_calc\<close> forms the backward difference of the
  current against the history held on entry, divided by \<open>\<Delta>t\<close>, returns the back-EMF
  \<open>(voltage - Rs * current - fSigLs * derivative) * f1divKr\<close>, and leaves the input
  current in the history field.
\<close>

theorem tIMstatObs_calc_backEMF:
  fixes s :: "'a::{minus,times,inverse} tIMstatObs"
  shows "fEsAl (tIMstatObs_calc s p) =
           (tIMstatObs.fUsAl s - fRs p * tIMstatObs.fIsAl s -
              fSigLs p * ((tIMstatObs.fIsAl s - fPrevIsAl s) / fDt p)) * f1divKr p
       \<and> fEsBe (tIMstatObs_calc s p) =
           (tIMstatObs.fUsBe s - fRs p * tIMstatObs.fIsBe s -
              fSigLs p * ((tIMstatObs.fIsBe s - fPrevIsBe s) / fDt p)) * f1divKr p
       \<and> fPrevIsAl (tIMstatObs_calc s p) = tIMstatObs.fIsAl s
       \<and> fPrevIsBe (tIMstatObs_calc s p) = tIMstatObs.fIsBe s"
  by (simp add: tIMstatObs_calc_def Let_def)

section \<open>Rotor flux and back-EMF observer\<close>

text \<open>
  Claim C10. Whatever the records hold on entry (so in particular in every state
  reached from the zero-initialised records), on return from \<open>tIMrotObs_calc\<close> the four
  history fields equal the flux and back-EMF outputs just written, and on return from
  \<open>tIMstatObs_calc\<close> the two current-history fields equal the current inputs.
\<close>

theorem calc_history_equals_latest:
  fixes r :: "'a::{one,plus,minus,times,inverse} tIMrotObs" and s :: "'a tIMstatObs"
  shows "fPrevFrAl (tIMrotObs_calc r p) = fFrAl (tIMrotObs_calc r p)
       \<and> fPrevFrBe (tIMrotObs_calc r p) = fFrBe (tIMrotObs_calc r p)
       \<and> fPrevErAl (tIMrotObs_calc r p) = fErAl (tIMrotObs_calc r p)
       \<and> fPrevErBe (tIMrotObs_calc r p) = fErBe (tIMrotObs_calc r p)
       \<and> fPrevIsAl (tIMstatObs_calc s p) = tIMstatObs.fIsAl (tIMstatObs_calc s p)
       \<and> fPrevIsBe (tIMstatObs_calc s p) = tIMstatObs.fIsBe (tIMstatObs_calc s p)"
  by (simp add: tIMrotObs_calc_def tIMstatObs_calc_def Let_def)

lemma tIMrotObs_calc_fWrE: "tIMrotObs.fWrE (tIMrotObs_calc r p) = tIMrotObs.fWrE r"
  by (simp add: tIMrotObs_calc_def Let_def)

text \<open>
  The two cross-coupling terms. The alpha back-EMF multiplies the speed with the beta
  flux held on entry. The beta back-EMF multiplies it with \<open>fFrAl\<close> after the alpha
  axis has integrated: the alpha flux of this call, not the one held on entry.
\<close>

lemma tIMrotObs_calc_cross_terms:
  fixes s :: "'a::{one,plus,minus,times,inverse} tIMrotObs"
  shows "fErAl (tIMrotObs_calc s p) =
           (tIMrotObs.fIsAl s * fLm p - fFrAl s) * f1divTr p - tIMrotObs.fWrE s * fFrBe s
       \<and> fFrAl (tIMrotObs_calc s p) =
           fPrevFrAl s + half * fDt p * (fErAl (tIMrotObs_calc s p) + fPrevErAl s)
       \<and> fErBe (tIMrotObs_calc s p) =
           (tIMrotObs.fIsBe s * fLm p - fFrBe s) * f1divTr p +
             tIMrotObs.fWrE s * fFrAl (tIMrotObs_calc s p)"
  by (simp add: tIMrotObs_calc_def Let_def)

text \<open>
  Claim C1, evaluated. The claim has each axis's cross-coupling term read the other
  axis's flux of the previous call. On a default-constructed rotor observer with
  inputs \<open>fIsAl = 1\<close>, \<open>fIsBe = 0\<close>, \<open>fWrE = 1\<close> and the example parameters, the alpha
  flux is \<open>0\<close> on entry and \<open>1/2\<close> after the alpha axis; the beta back-EMF comes out as
  \<open>1/2\<close>, the value formed with the updated alpha flux, and not as \<open>0\<close>, the value
  formed with the alpha flux held on entry.
\<close>

theorem tIMrotObs_calc_beta_reads_updated_alpha_flux:
  "let s = IM_ROT_OBS_DEFAULTS\<lparr>tIMrotObs.fIsAl := 1, tIMrotObs.fWrE := 1\<rparr> :: real tIMrotObs;
       s' = tIMrotObs_calc s example_params
   in fFrAl s = 0 \<and> fFrAl s' = 1 / 2 \<and> fErBe s' = 1 / 2
    \<and> fErBe s' =
        (tIMrotObs.fIsBe s * fLm example_params - fFrBe s) * f1divTr example_params +
          tIMrotObs.fWrE s * fFrAl s'
    \<and> fErBe s' \<noteq>
        (tIMrotObs.fIsBe s * fLm example_params - fFrBe s) * f1divTr example_params +
          tIMrotObs.fWrE s * fFrAl s"
  by (simp add: Let_def IM_ROT_OBS_DEFAULTS_def example_params_eq tIMrotObs_calc_def half_def)

section \<open>Sensorless speed and flux observer\<close>

subsection \<open>The parts of one call\<close>

lemma call_tIMstatObs_eq: "call_tIMstatObs f s p = tIMstatObs_calc s p"
  by (cases f) simp

lemma call_tIMrotObs_eq: "call_tIMrotObs f r p = tIMrotObs_calc r p"
  by (cases f) simp

lemma tIMspeedObs_calc_sIMstatObs:
  "sIMstatObs (tIMspeedObs_calc libm s p) =
     tIMstatObs_calc ((sIMstatObs s)\<lparr>tIMstatObs.fUsAl := tIMspeedObs.fUsAl s,
        tIMstatObs.fUsBe := tIMspeedObs.fUsBe s, tIMstatObs.fIsAl := tIMspeedObs.fIsAl s,
        tIMstatObs.fIsBe := tIMspeedObs.fIsBe s\<rparr>) p"
  by (simp add: tIMspeedObs_calc_def Let_def call_tIMstatObs_eq)

lemma tIMspeedObs_calc_sIMrotObs:
  "sIMrotObs (tIMspeedObs_calc libm s p) =
     tIMrotObs_calc ((sIMrotObs s)\<lparr>tIMrotObs.fIsAl := tIMspeedObs.fIsAl s,
        tIMrotObs.fIsBe := tIMspeedObs.fIsBe s, tIMrotObs.fWrE := tIMspeedObs.fWrE s\<rparr>) p"
  by (simp add: tIMspeedObs_calc_def Let_def call_tIMrotObs_eq)

lemma tIMspeedObs_calc_sPI:
  "sPI (tIMspeedObs_calc libm s p) =
     call_tPI (tPI.m_calc (sPI s)) ((sPI s)\<lparr>tPI.fIn :=
       tIMspeedObs.fIsAl s *
         (fEsBe (sIMstatObs (tIMspeedObs_calc libm s p)) -
          fErBe (sIMrotObs (tIMspeedObs_calc libm s p))) -
       tIMspeedObs.fIsBe s *
         (fEsAl (sIMstatObs (tIMspeedObs_calc libm s p)) -
          fErAl (sIMrotObs (tIMspeedObs_calc libm s p)))\<rparr>)"
  by (simp add: tIMspeedObs_calc_def Let_def)

lemma tIMspeedObs_calc_fWrE:
  "tIMspeedObs.fWrE (tIMspeedObs_calc libm s p) = tPI.fOut (sPI (tIMspeedObs_calc libm s p))"
  by (simp add: tIMspeedObs_calc_def Let_def)

lemma tIMspeedObs_calc_flux:
  "fFrAng (tIMspeedObs_calc libm s p) =
     atan2f libm (fFrBe (sIMrotObs (tIMspeedObs_calc libm s p)))
                 (fFrAl (sIMrotObs (tIMspeedObs_calc libm s p)))"
  "fFrMagn (tIMspeedObs_calc libm s p) =
     hypotf libm (fFrBe (sIMrotObs (tIMspeedObs_calc libm s p)))
                 (fFrAl (sIMrotObs (tIMspeedObs_calc libm s p)))"
  by (simp_all add: tIMspeedObs_calc_def Let_def)

text \<open>The first example sample on the configured example observer, worked out.\<close>

lemma example_calc:
  "tIMspeedObs_calc real_math_h (feed example_sample example_speedObs) example_params =
   \<lparr> tIMspeedObs.fUsAl = 1, tIMspeedObs.fUsBe = 0,
     tIMspeedObs.fIsAl = 1, tIMspeedObs.fIsBe = 1,
     sIMstatObs =
       \<lparr> tIMstatObs.fIsAl = 1, tIMstatObs.fIsBe = 1,
         tIMstatObs.fUsAl = 1, tIMstatObs.fUsBe = 0,
         fPrevIsAl = 1, fPrevIsBe = 1, fEsAl = - 1, fEsBe = - 2,
         tIMstatObs.m_calc = Fn_tIMstatObs_calc \<rparr>,
     sIMrotObs =
       \<lparr> tIMrotObs.fIsAl = 1, tIMrotObs.fIsBe = 1, tIMrotObs.fWrE = 0,
         fPrevErAl = 1, fPrevErBe = 1, fPrevFrAl = 1 / 2, fPrevFrBe = 1 / 2,
         fFrAl = 1 / 2, fFrBe = 1 / 2, fErAl = 1, fErBe = 1,
         tIMrotObs.m_calc = Fn_tIMrotObs_calc \<rparr>,
     sPI =
       \<lparr> tPI.fDtSec = 1, tPI.fIn = - 1, tPI.fKp = 1, tPI.fKi = 2,
         tPI.fUpOutLim = 100, tPI.fLowOutLim = - 100,
         tPI.fPout = - 1, tPI.fIout = - 1, tPI.fIprevIn = - 1, tPI.fIprevOut = - 1,
         tPI.fOut = - 2, tPI.m_calc = Fn_tPI_calc, tPI.m_rst = Fn_tPI_rst \<rparr>,
     tIMspeedObs.fWrE = - 2, fFrAng = pi / 4, fFrMagn = sqrt (1 / 2),
     tIMspeedObs.m_calc = Fn_tIMspeedObs_calc \<rparr>"
  by (simp add: tIMspeedObs_calc_def feed_def example_sample_def example_speedObs_def
        IM_SPEED_OBS_DEFAULTS_def IM_STAT_OBS_DEFAULTS_def IM_ROT_OBS_DEFAULTS_def
        PI_DEFAULTS_def example_params_eq real_math_h_def tIMstatObs_calc_def
        tIMrotObs_calc_def tPI_calc_def half_def arctan_one)

subsection \<open>Speed error, speed estimate and flux outputs\<close>

text \<open>
  Claim C4. In a call of \<open>tIMspeedObs_calc\<close> whose controller pointer is the PI compute
  function, with \<open>s'\<close> the record on return: the two sub-observers have run on the
  copied inputs; the controller input is
  \<open>fIsAl * (fEsBe - fErBe) - fIsBe * (fEsAl - fErAl)\<close>, formed from the back-EMFs the
  two sub-observers produced in this call; the controller has run on that input, its
  output is the sum of its two links clamped to the limits, and that output is the new
  speed estimate \<open>fWrE\<close>; the flux angle is \<open>atan2f (fFrBe, fFrAl)\<close> and the flux
  magnitude \<open>hypotf (fFrBe, fFrAl)\<close> of the flux the rotor observer produced in this call.
\<close>

theorem tIMspeedObs_calc_error_speed_flux:
  fixes s :: "'a::{zero,one,plus,minus,times,inverse,ord} tIMspeedObs"
  assumes "tPI.m_calc (sPI s) = Fn_tPI_calc"
  shows "let s' = tIMspeedObs_calc libm s p;
             err = tIMspeedObs.fIsAl s * (fEsBe (sIMstatObs s') - fErBe (sIMrotObs s')) -
                   tIMspeedObs.fIsBe s * (fEsAl (sIMstatObs s') - fErAl (sIMrotObs s'))
         in sIMstatObs s' =
              tIMstatObs_calc ((sIMstatObs s)\<lparr>tIMstatObs.fUsAl := tIMspeedObs.fUsAl s,
                 tIMstatObs.fUsBe := tIMspeedObs.fUsBe s,
                 tIMstatObs.fIsAl := tIMspeedObs.fIsAl s,
                 tIMstatObs.fIsBe := tIMspeedObs.fIsBe s\<rparr>) p
          \<and> sIMrotObs s' =
              tIMrotObs_calc ((sIMrotObs s)\<lparr>tIMrotObs.fIsAl := tIMspeedObs.fIsAl s,
                 tIMrotObs.fIsBe := tIMspeedObs.fIsBe s,
                 tIMrotObs.fWrE := tIMspeedObs.fWrE s\<rparr>) p
          \<and> sPI s' = tPI_calc ((sPI s)\<lparr>tPI.fIn := err\<rparr>)
          \<and> tPI.fIn (sPI s') = err
          \<and> tPI.fOut (sPI s') =
              (let fPreOut = tPI.fPout (sPI s') + tPI.fIout (sPI s');
                   fPreOut = (if fPreOut > tPI.fUpOutLim (sPI s) then tPI.fUpOutLim (sPI s)
                              else fPreOut)
               in if fPreOut < tPI.fLowOutLim (sPI s) then tPI.fLowOutLim (sPI s)
                  else fPreOut)
          \<and> tIMspeedObs.fWrE s' = tPI.fOut (sPI s')
          \<and> fFrAng s' = atan2f libm (fFrBe (sIMrotObs s')) (fFrAl (sIMrotObs s'))
          \<and> fFrMagn s' = hypotf libm (fFrBe (sIMrotObs s')) (fFrAl (sIMrotObs s'))"
proof -
  define s' where "s' = tIMspeedObs_calc libm s p"
  define err where
    "err = tIMspeedObs.fIsAl s * (fEsBe (sIMstatObs s') - fErBe (sIMrotObs s')) -
           tIMspeedObs.fIsBe s * (fEsAl (sIMstatObs s') - fErAl (sIMrotObs s'))"
  have pi: "sPI s' = tPI_calc ((sPI s)\<lparr>tPI.fIn := err\<rparr>)"
    unfolding s'_def err_def using assms by (simp add: tIMspeedObs_calc_sPI [of libm s p])
  have inp: "tPI.fIn (sPI s') = err"
    by (simp add: pi tPI_calc_fIn)
  have out: "tPI.fOut (sPI s') =
              (let fPreOut = tPI.fPout (sPI s') + tPI.fIout (sPI s');
                   fPreOut = (if fPreOut > tPI.fUpOutLim (sPI s) then tPI.fUpOutLim (sPI s)
                              else fPreOut)
               in if fPreOut < tPI.fLowOutLim (sPI s) then tPI.fLowOutLim (sPI s)
                  else fPreOut)"
    unfolding pi by (subst tPI_calc_fOut) (simp add: Let_def)
  show ?thesis
    unfolding Let_def s'_def [symmetric] err_def [symmetric]
    using pi inp out
    by (simp add: s'_def tIMspeedObs_calc_sIMstatObs tIMspeedObs_calc_sIMrotObs
        tIMspeedObs_calc_fWrE tIMspeedObs_calc_flux Let_def)
qed

text \<open>
  The example observer after its first sample: the speed error is \<open>-1\<close>, the speed
  estimate is the controller output \<open>-2\<close>, and the flux \<open>(1/2, 1/2)\<close> has angle \<open>\<pi>/4\<close>.
\<close>

theorem tIMspeedObs_calc_error_speed_flux_witness:
  "tPI.m_calc (sPI (feed example_sample example_speedObs)) = Fn_tPI_calc
   \<and> tPI.fIn (sPI (tIMspeedObs_calc real_math_h (feed example_sample example_speedObs)
         example_params)) = - 1
   \<and> tIMspeedObs.fWrE (tIMspeedObs_calc real_math_h (feed example_sample example_speedObs)
         example_params) = - 2
   \<and> fFrAng (tIMspeedObs_calc real_math_h (feed example_sample example_speedObs)
         example_params) = pi / 4"
proof -
  have h: "tPI.m_calc (sPI (feed example_sample example_speedObs)) = Fn_tPI_calc"
    by (simp add: feed_def example_speedObs_def IM_SPEED_OBS_DEFAULTS_def PI_DEFAULTS_def)
  from tIMspeedObs_calc_error_speed_flux [OF h, of real_math_h example_params]
  have "tIMspeedObs.fWrE (tIMspeedObs_calc real_math_h (feed example_sample example_speedObs)
         example_params) =
        tPI.fOut (sPI (tIMspeedObs_calc real_math_h (feed example_sample example_speedObs)
         example_params))"
    unfolding Let_def by blast
  with h show ?thesis
    by (simp add: example_calc)
qed

subsection \<open>The one-sample delay of the speed feedback\<close>

lemma run_snoc: "run libm p s (xs @ [x]) = sample_step libm p (run libm p s xs) x"
  by (simp add: run_def)

lemma feed_fWrE: "tIMspeedObs.fWrE (feed x s) = tIMspeedObs.fWrE s"
  by (simp add: feed_def)

text \<open>
  Claim C2. The rotor observer's compute function is called on the rotor record whose
  speed input has just been set to the speed estimate \<open>fWrE\<close> held on entry to
  \<open>tIMspeedObs_calc\<close>, and the rotor record still shows that speed on return. Along a
  run of samples on one record, the speed the rotor observer works with at the first
  sample is the initial estimate, and at every later sample it is the controller
  output of the sample before.
\<close>

theorem rotor_observer_sees_entry_speed:
  fixes s :: "'a::{zero,one,plus,minus,times,inverse,ord} tIMspeedObs"
  shows "sIMrotObs (tIMspeedObs_calc libm s p) =
           call_tIMrotObs (tIMrotObs.m_calc (sIMrotObs s))
             ((sIMrotObs s)\<lparr>tIMrotObs.fIsAl := tIMspeedObs.fIsAl s,
                tIMrotObs.fIsBe := tIMspeedObs.fIsBe s,
                tIMrotObs.fWrE := tIMspeedObs.fWrE s\<rparr>) p
       \<and> tIMrotObs.fWrE (sIMrotObs (tIMspeedObs_calc libm s p)) = tIMspeedObs.fWrE s
       \<and> tIMrotObs.fWrE (sIMrotObs (run libm p s [x])) = tIMspeedObs.fWrE s
       \<and> tIMrotObs.fWrE (sIMrotObs (run libm p s (xs @ [x', x]))) =
           tPI.fOut (sPI (run libm p s (xs @ [x'])))"
proof -
  have a: "tIMrotObs.fWrE (sIMrotObs (tIMspeedObs_calc libm t p)) = tIMspeedObs.fWrE t" for t
    by (simp add: tIMspeedObs_calc_sIMrotObs [where 'a='a] tIMrotObs_calc_fWrE [where 'a='a])
  have b: "tIMrotObs.fWrE (sIMrotObs (sample_step libm p t y)) = tIMspeedObs.fWrE t" for t y
    by (simp add: sample_step_def a feed_fWrE)
  have c: "tIMspeedObs.fWrE (sample_step libm p t y) = tPI.fOut (sPI (sample_step libm p t y))"
    for t y
    by (simp add: sample_step_def tIMspeedObs_calc_fWrE)
  have d: "run libm p s (xs @ [x', x]) = sample_step libm p (run libm p s (xs @ [x'])) x"
    using run_snoc [of libm p s "xs @ [x']" x] by simp
  have e: "run libm p s [x] = sample_step libm p s x"
    by (simp add: run_def)
  show ?thesis
    by (simp add: a b c d e run_snoc tIMspeedObs_calc_sIMrotObs call_tIMrotObs_eq
        tIMrotObs_calc_fWrE)
qed

text \<open>
  On the two example samples: the rotor observer works with \<open>-2\<close> at the second
  sample, the estimate the first sample produced, while the second sample's own new
  estimate is \<open>-5/2\<close>.
\<close>

lemma run_example_samples:
  "tIMspeedObs.fWrE (run real_math_h example_params example_speedObs [example_sample]) = - 2
   \<and> tIMrotObs.fWrE (sIMrotObs
         (run real_math_h example_params example_speedObs example_samples)) = - 2
   \<and> tIMspeedObs.fWrE (run real_math_h example_params example_speedObs example_samples) =
       - (5 / 2)"
  by (simp add: run_def example_samples_def sample_step_def example_calc)
     (simp add: tIMspeedObs_calc_def feed_def example_params_eq real_math_h_def
        tIMstatObs_calc_def tIMrotObs_calc_def tPI_calc_def half_def)

subsection \<open>The outputs are a function of history, parameters and samples\<close>

lemma tIMstatObs_calc_agree:
  fixes a b :: "'a::{minus,times,inverse} tIMstatObs"
  assumes "fPrevIsAl a = fPrevIsAl b" "fPrevIsBe a = fPrevIsBe b"
    "tIMstatObs.m_calc a = tIMstatObs.m_calc b"
  shows "tIMstatObs_calc (a\<lparr>tIMstatObs.fUsAl := u, tIMstatObs.fUsBe := v,
            tIMstatObs.fIsAl := i, tIMstatObs.fIsBe := j\<rparr>) p =
         tIMstatObs_calc (b\<lparr>tIMstatObs.fUsAl := u, tIMstatObs.fUsBe := v,
            tIMstatObs.fIsAl := i, tIMstatObs.fIsBe := j\<rparr>) p"
  using assms by (cases a, cases b) (simp add: tIMstatObs_calc_def Let_def)

lemma tIMrotObs_calc_agree:
  fixes a b :: "'a::{one,plus,minus,times,inverse} tIMrotObs"
  assumes "fPrevErAl a = fPrevErAl b" "fPrevErBe a = fPrevErBe b"
    "fPrevFrAl a = fPrevFrAl b" "fPrevFrBe a = fPrevFrBe b"
    "fFrAl a = fFrAl b" "fFrBe a = fFrBe b"
    "tIMrotObs.m_calc a = tIMrotObs.m_calc b"
  shows "tIMrotObs_calc (a\<lparr>tIMrotObs.fIsAl := i, tIMrotObs.fIsBe := j,
            tIMrotObs.fWrE := w\<rparr>) p =
         tIMrotObs_calc (b\<lparr>tIMrotObs.fIsAl := i, tIMrotObs.fIsBe := j,
            tIMrotObs.fWrE := w\<rparr>) p"
  using assms by (cases a, cases b) (simp add: tIMrotObs_calc_def Let_def)

lemma call_tPI_agree:
  fixes a b :: "'a::{zero,one,plus,times,inverse,ord} tPI"
  assumes "tPI.fDtSec a = tPI.fDtSec b" "tPI.fKp a = tPI.fKp b" "tPI.fKi a = tPI.fKi b"
    "tPI.fUpOutLim a = tPI.fUpOutLim b" "tPI.fLowOutLim a = tPI.fLowOutLim b"
    "tPI.fIprevIn a = tPI.fIprevIn b" "tPI.fIprevOut a = tPI.fIprevOut b"
    "tPI.m_calc a = tPI.m_calc b"
  shows "call_tPI (tPI.m_calc a) (a\<lparr>tPI.fIn := e\<rparr>) =
         (call_tPI (tPI.m_calc b) (b\<lparr>tPI.fIn := e\<rparr>))\<lparr>tPI.m_rst := tPI.m_rst a\<rparr>"
  using assms
  by (cases a, cases b, cases "tPI.m_calc b")
     (simp_all add: tPI_calc_def tPI_rst_def Let_def)

lemma sample_step_same_history:
  fixes s :: "'a::{zero,one,plus,minus,times,inverse,ord} tIMspeedObs"
  assumes "same_history s t"
  shows "same_history (sample_step libm p s x) (sample_step libm p t x)
       \<and> outputs (sample_step libm p s x) = outputs (sample_step libm p t x)"
proof -
  let ?s = "sample_step libm p s x" and ?t = "sample_step libm p t x"
  have st: "sIMstatObs ?s = sIMstatObs ?t"
  proof -
    have "sIMstatObs ?s =
        tIMstatObs_calc ((sIMstatObs s)\<lparr>tIMstatObs.fUsAl := UsAl x,
          tIMstatObs.fUsBe := UsBe x, tIMstatObs.fIsAl := IsAl x,
          tIMstatObs.fIsBe := IsBe x\<rparr>) p"
      by (simp add: sample_step_def tIMspeedObs_calc_sIMstatObs feed_def)
    also have "\<dots> =
        tIMstatObs_calc ((sIMstatObs t)\<lparr>tIMstatObs.fUsAl := UsAl x,
          tIMstatObs.fUsBe := UsBe x, tIMstatObs.fIsAl := IsAl x,
          tIMstatObs.fIsBe := IsBe x\<rparr>) p"
      by (rule tIMstatObs_calc_agree) (use assms in \<open>simp_all add: same_history_def\<close>)
    also have "\<dots> = sIMstatObs ?t"
      by (simp add: sample_step_def tIMspeedObs_calc_sIMstatObs feed_def)
    finally show ?thesis .
  qed
  have rt: "sIMrotObs ?s = sIMrotObs ?t"
  proof -
    have w: "tIMspeedObs.fWrE s = tIMspeedObs.fWrE t"
      using assms by (simp add: same_history_def)
    have "sIMrotObs ?s =
        tIMrotObs_calc ((sIMrotObs s)\<lparr>tIMrotObs.fIsAl := IsAl x,
          tIMrotObs.fIsBe := IsBe x, tIMrotObs.fWrE := tIMspeedObs.fWrE t\<rparr>) p"
      by (simp add: sample_step_def tIMspeedObs_calc_sIMrotObs feed_def w)
    also have "\<dots> =
        tIMrotObs_calc ((sIMrotObs t)\<lparr>tIMrotObs.fIsAl := IsAl x,
          tIMrotObs.fIsBe := IsBe x, tIMrotObs.fWrE := tIMspeedObs.fWrE t\<rparr>) p"
      by (rule tIMrotObs_calc_agree) (use assms in \<open>simp_all add: same_history_def\<close>)
    also have "\<dots> = sIMrotObs ?t"
      by (simp add: sample_step_def tIMspeedObs_calc_sIMrotObs feed_def)
    finally show ?thesis .
  qed
  have pi: "sPI ?s = (sPI ?t)\<lparr>tPI.m_rst := tPI.m_rst (sPI s)\<rparr>"
  proof -
    define e where "e = IsAl x * (fEsBe (sIMstatObs ?t) - fErBe (sIMrotObs ?t)) -
                        IsBe x * (fEsAl (sIMstatObs ?t) - fErAl (sIMrotObs ?t))"
    have "sPI ?s = call_tPI (tPI.m_calc (sPI s)) ((sPI s)\<lparr>tPI.fIn :=
            IsAl x * (fEsBe (sIMstatObs ?s) - fErBe (sIMrotObs ?s)) -
            IsBe x * (fEsAl (sIMstatObs ?s) - fErAl (sIMrotObs ?s))\<rparr>)"
      using tIMspeedObs_calc_sPI [of libm "feed x s" p]
      by (simp add: sample_step_def feed_def)
    then have ps: "sPI ?s = call_tPI (tPI.m_calc (sPI s)) ((sPI s)\<lparr>tPI.fIn := e\<rparr>)"
      unfolding st rt e_def .
    have pt: "sPI ?t = call_tPI (tPI.m_calc (sPI t)) ((sPI t)\<lparr>tPI.fIn := e\<rparr>)"
      unfolding e_def
      using tIMspeedObs_calc_sPI [of libm "feed x t" p]
      by (simp add: sample_step_def feed_def)
    have "call_tPI (tPI.m_calc (sPI s)) ((sPI s)\<lparr>tPI.fIn := e\<rparr>) =
        (call_tPI (tPI.m_calc (sPI t)) ((sPI t)\<lparr>tPI.fIn := e\<rparr>))
          \<lparr>tPI.m_rst := tPI.m_rst (sPI s)\<rparr>"
      by (rule call_tPI_agree) (use assms in \<open>simp_all add: same_history_def\<close>)
    then show ?thesis
      unfolding ps [symmetric] pt [symmetric] .
  qed
  have w: "tIMspeedObs.fWrE ?s = tIMspeedObs.fWrE ?t"
    unfolding sample_step_def tIMspeedObs_calc_fWrE
    unfolding sample_step_def [symmetric] pi by simp
  have fl: "fFrAng ?s = fFrAng ?t" "fFrMagn ?s = fFrMagn ?t"
    unfolding sample_step_def tIMspeedObs_calc_flux
    unfolding sample_step_def [symmetric] rt by simp_all
  show ?thesis
    unfolding same_history_def outputs_def st rt w fl pi by simp
qed

text \<open>
  Claim C8. \<open>tIMspeedObs_calc\<close> is a function of the record, the parameter record and
  the two library functions, and of the record it reads only the history: replaying
  one sequence of samples, with one parameter record, into two records with the same
  history gives the same sequence of outputs (speed estimate, flux angle, flux
  magnitude). Two default-constructed records are the case \<open>s = t =
  IM_SPEED_OBS_DEFAULTS\<close>. No local variable of the functions involved is read before
  it is assigned, and there is no state outside the records.
\<close>

theorem replay_depends_on_history_only:
  fixes s :: "'a::{zero,one,plus,minus,times,inverse,ord} tIMspeedObs"
  assumes "same_history s t"
  shows "replay libm p s xs = replay libm p t xs"
  using assms
proof (induction xs arbitrary: s t)
  case Nil
  show ?case by simp
next
  case (Cons x xs)
  from sample_step_same_history [OF Cons.prems, of libm p x]
  have h: "same_history (sample_step libm p s x) (sample_step libm p t x)"
    and o: "outputs (sample_step libm p s x) = outputs (sample_step libm p t x)"
    by simp_all
  from Cons.IH [OF h] o show ?case by simp
qed

text \<open>Two default-constructed observers, the example parameters, the two example samples.\<close>

theorem replay_depends_on_history_only_witness:
  "same_history (IM_SPEED_OBS_DEFAULTS :: real tIMspeedObs) IM_SPEED_OBS_DEFAULTS
   \<and> replay real_math_h example_params IM_SPEED_OBS_DEFAULTS example_samples =
     replay real_math_h example_params IM_SPEED_OBS_DEFAULTS example_samples"
proof -
  have h: "same_history (IM_SPEED_OBS_DEFAULTS :: real tIMspeedObs) IM_SPEED_OBS_DEFAULTS"
    by (simp add: same_history_def)
  from replay_depends_on_history_only [OF h, of real_math_h example_params example_samples] h
  show ?thesis by (rule conjI [rotated])
qed

end
